theory Spec2Isabelle
  imports Main
begin

section \<open>The persisted counter\<close>

text \<open>
  The application keeps one SQLite table,
  \<^verbatim>\<open>visitors (id INTEGER PRIMARY KEY CHECK(id = 1), count INTEGER NOT NULL)\<close>.
  A row is the pair of its \<open>id\<close> and its \<open>count\<close>; a table is the list of its rows; the
  database file either has no \<open>visitors\<close> table yet (\<open>None\<close>) or holds one.

  \<open>count\<close> is modelled as an unbounded integer. SQLite stores an INTEGER in 64 bits, so
  the model agrees with the engine for every count below \<open>2^63 - 1\<close>.
\<close>

type_synonym row = "int \<times> int"
type_synonym table = "row list"
type_synonym database = "table option"

subsection \<open>The five SQL statements of the program\<close>

definition sql_create_table :: "database \<Rightarrow> database" where
  \<comment> \<open>\<^verbatim>\<open>CREATE TABLE IF NOT EXISTS visitors (...)\<close>\<close>
  "sql_create_table db = (case db of None \<Rightarrow> Some [] | Some t \<Rightarrow> Some t)"

definition sql_select_count :: "table \<Rightarrow> int option" where
  \<comment> \<open>\<^verbatim>\<open>SELECT count FROM visitors WHERE id = 1\<close>, then \<^verbatim>\<open>fetchone()\<close>\<close>
  "sql_select_count t =
     (case filter (\<lambda>r. fst r = 1) t of [] \<Rightarrow> None | r # _ \<Rightarrow> Some (snd r))"

definition sql_insert_seed :: "table \<Rightarrow> table" where
  \<comment> \<open>\<^verbatim>\<open>INSERT INTO visitors (id, count) VALUES (1, 0)\<close>\<close>
  "sql_insert_seed t = t @ [(1, 0)]"

definition sql_update_increment :: "table \<Rightarrow> table" where
  \<comment> \<open>\<^verbatim>\<open>UPDATE visitors SET count = count + 1 WHERE id = 1\<close>\<close>
  "sql_update_increment t = map (\<lambda>r. if fst r = 1 then (fst r, snd r + 1) else r) t"

definition sql_update_reset :: "table \<Rightarrow> table" where
  \<comment> \<open>\<^verbatim>\<open>UPDATE visitors SET count = 0 WHERE id = 1\<close>\<close>
  "sql_update_reset t = map (\<lambda>r. if fst r = 1 then (fst r, 0) else r) t"

subsection \<open>Exceptions and the failing environment\<close>

text \<open>
  Every call into the operating system or into SQLite may raise. Which calls raise during
  one invocation is an input of the model: the set of failing calls.
  \<open>OperationalError\<close> stands for \<^verbatim>\<open>sqlite3.Error\<close> (disk full, lock timeout, no such
  table), \<open>TypeError\<close> for subscripting \<^verbatim>\<open>None\<close>, \<open>OSError\<close> for a failed \<^verbatim>\<open>mkdir\<close>.
\<close>

datatype exception = OperationalError | TypeError | OSError

datatype db_call =
  Mkdir | Connect | Create_table | Select_count | Insert_seed
  | Update_increment | Update_reset | Commit

type_synonym faults = "db_call set"

subsection \<open>Connections and transactions\<close>

text \<open>
  A connection sees the durable database and, while a transaction is open, its own
  uncommitted copy. Python's \<^verbatim>\<open>sqlite3\<close> opens a transaction implicitly before an
  INSERT or UPDATE, runs CREATE TABLE and SELECT without opening one, and
  \<^verbatim>\<open>commit()\<close> makes the copy durable.
\<close>

record connection =
  durable :: database
  pending :: "database option"

definition get_db_connection :: "faults \<Rightarrow> database \<Rightarrow> exception + connection" where
  \<comment> \<open>\<^verbatim>\<open>sqlite3.connect\<close> and \<^verbatim>\<open>PRAGMA journal_mode=WAL\<close>\<close>
  "get_db_connection F db =
     (if Connect \<in> F then Inl OperationalError
      else Inr \<lparr>durable = db, pending = None\<rparr>)"

definition snapshot :: "connection \<Rightarrow> database" where
  "snapshot conn = (case pending conn of None \<Rightarrow> durable conn | Some d \<Rightarrow> d)"

definition execute_create :: "faults \<Rightarrow> connection \<Rightarrow> (exception + unit) \<times> connection" where
  "execute_create F conn =
     (if Create_table \<in> F then (Inl OperationalError, conn)
      else (Inr (),
        (case pending conn of
           None \<Rightarrow> conn\<lparr>durable := sql_create_table (durable conn)\<rparr>
         | Some d \<Rightarrow> conn\<lparr>pending := Some (sql_create_table d)\<rparr>)))"

definition execute_select :: "faults \<Rightarrow> connection \<Rightarrow> (exception + int option) \<times> connection" where
  "execute_select F conn =
     (if Select_count \<in> F then (Inl OperationalError, conn)
      else (case snapshot conn of
              None \<Rightarrow> (Inl OperationalError, conn)
            | Some t \<Rightarrow> (Inr (sql_select_count t), conn)))"

definition execute_write ::
  "faults \<Rightarrow> db_call \<Rightarrow> (table \<Rightarrow> table) \<Rightarrow> connection \<Rightarrow> (exception + unit) \<times> connection" where
  \<comment> \<open>an INSERT or UPDATE: begins a transaction when none is open\<close>
  "execute_write F call stmt conn =
     (if call \<in> F then (Inl OperationalError, conn)
      else (case snapshot conn of
              None \<Rightarrow> (Inl OperationalError, conn)
            | Some t \<Rightarrow> (Inr (), conn\<lparr>pending := Some (Some (stmt t))\<rparr>)))"

definition commit :: "faults \<Rightarrow> connection \<Rightarrow> (exception + unit) \<times> connection" where
  \<comment> \<open>a no-op when no transaction is open\<close>
  "commit F conn =
     (case pending conn of
        None \<Rightarrow> (Inr (), conn)
      | Some d \<Rightarrow>
          (if Commit \<in> F then (Inl OperationalError, conn)
           else (Inr (), \<lparr>durable = d, pending = None\<rparr>)))"

definition rollback :: "connection \<Rightarrow> connection" where
  "rollback conn = conn\<lparr>pending := None\<rparr>"

definition with_connection ::
  "faults \<Rightarrow> (connection \<Rightarrow> (exception + 'a) \<times> connection) \<Rightarrow> connection
     \<Rightarrow> (exception + 'a) \<times> database" where
  \<comment> \<open>\<^verbatim>\<open>with conn:\<close> commits when the body returns and rolls back when it raises\<close>
  "with_connection F body conn =
     (case body conn of
        (Inl e, c) \<Rightarrow> (Inl e, durable (rollback c))
      | (Inr v, c) \<Rightarrow>
          (case commit F c of
             (Inl e, c') \<Rightarrow> (Inl e, durable (rollback c'))
           | (Inr _, c') \<Rightarrow> (Inr v, durable c')))"

section \<open>The counter store\<close>

definition initialize_body :: "faults \<Rightarrow> connection \<Rightarrow> (exception + unit) \<times> connection" where
  "initialize_body F conn =
     (case execute_create F conn of
        (Inl e, c1) \<Rightarrow> (Inl e, c1)
      | (Inr _, c1) \<Rightarrow>
     (case execute_select F c1 of
        (Inl e, c2) \<Rightarrow> (Inl e, c2)
      | (Inr (Some _), c2) \<Rightarrow> (Inr (), c2)
      | (Inr None, c2) \<Rightarrow>
     (case execute_write F Insert_seed sql_insert_seed c2 of
        (Inl e, c3) \<Rightarrow> (Inl e, c3)
      | (Inr _, c3) \<Rightarrow> commit F c3)))"

definition initialize_database :: "faults \<Rightarrow> database \<Rightarrow> (exception + unit) \<times> database" where
  "initialize_database F db =
     (if Mkdir \<in> F then (Inl OSError, db)
      else (case get_db_connection F db of
              Inl e \<Rightarrow> (Inl e, db)
            | Inr conn \<Rightarrow> with_connection F (initialize_body F) conn))"

definition update_and_commit :: "faults \<Rightarrow> connection \<Rightarrow> (exception + unit) \<times> connection" where
  \<comment> \<open>the write transaction of \<^verbatim>\<open>increment_and_get_count\<close>: the UPDATE and \<^verbatim>\<open>conn.commit()\<close>\<close>
  "update_and_commit F conn =
     (case execute_write F Update_increment sql_update_increment conn of
        (Inl e, c1) \<Rightarrow> (Inl e, c1)
      | (Inr _, c1) \<Rightarrow> commit F c1)"

definition select_and_return :: "faults \<Rightarrow> connection \<Rightarrow> (exception + int) \<times> connection" where
  \<comment> \<open>the read-back: the SELECT, \<^verbatim>\<open>fetchone()\<close> and \<^verbatim>\<open>int(row["count"])\<close>\<close>
  "select_and_return F conn =
     (case execute_select F conn of
        (Inl e, c3) \<Rightarrow> (Inl e, c3)
      | (Inr None, c3) \<Rightarrow> (Inl TypeError, c3)
      | (Inr (Some n), c3) \<Rightarrow> (Inr n, c3))"

definition increment_body :: "faults \<Rightarrow> connection \<Rightarrow> (exception + int) \<times> connection" where
  "increment_body F conn =
     (case update_and_commit F conn of
        (Inl e, c2) \<Rightarrow> (Inl e, c2)
      | (Inr _, c2) \<Rightarrow> select_and_return F c2)"

definition increment_and_get_count :: "faults \<Rightarrow> database \<Rightarrow> (exception + int) \<times> database" where
  "increment_and_get_count F db =
     (case get_db_connection F db of
        Inl e \<Rightarrow> (Inl e, db)
      | Inr conn \<Rightarrow> with_connection F (increment_body F) conn)"

definition reset_body :: "faults \<Rightarrow> connection \<Rightarrow> (exception + int) \<times> connection" where
  "reset_body F conn =
     (case execute_write F Update_reset sql_update_reset conn of
        (Inl e, c1) \<Rightarrow> (Inl e, c1)
      | (Inr _, c1) \<Rightarrow>
     (case commit F c1 of
        (Inl e, c2) \<Rightarrow> (Inl e, c2)
      | (Inr _, c2) \<Rightarrow> (Inr 0, c2)))"

definition reset_count :: "faults \<Rightarrow> database \<Rightarrow> (exception + int) \<times> database" where
  "reset_count F db =
     (case get_db_connection F db of
        Inl e \<Rightarrow> (Inl e, db)
      | Inr conn \<Rightarrow> with_connection F (reset_body F) conn)"

section \<open>The HTTP endpoint layer\<close>

datatype json_value = JInt int | JStr string

type_synonym json_object = "(string \<times> json_value) list"

datatype payload = Text string | Json json_object

record response =
  payload :: payload
  status_code :: nat
  headers :: "(string \<times> string) list"

definition jsonify :: "json_object \<Rightarrow> response" where
  "jsonify obj =
     \<lparr>payload = Json obj, status_code = 200,
      headers = [(''Content-Type'', ''application/json'')]\<rparr>"

definition make_response :: "string \<Rightarrow> response" where
  "make_response body =
     \<lparr>payload = Text body, status_code = 200,
      headers = [(''Content-Type'', ''text/html; charset=utf-8'')]\<rparr>"

fun headers_set :: "string \<Rightarrow> string \<Rightarrow> (string \<times> string) list \<Rightarrow> (string \<times> string) list" where
  "headers_set k v [] = [(k, v)]"
| "headers_set k v (h # hs) =
     (if fst h = k then (k, v) # filter (\<lambda>p. fst p \<noteq> k) hs
      else h # headers_set k v hs)"

definition get_visitors :: "faults \<Rightarrow> database \<Rightarrow> (response \<times> nat) \<times> database" where
  "get_visitors F db =
     (case increment_and_get_count F db of
        (Inr n, db') \<Rightarrow> ((jsonify [(''count'', JInt n)], 200), db')
      | (Inl exc, db') \<Rightarrow>
          ((jsonify [(''error'', JStr ''Unable to read visitor count'')], 500), db'))"

definition reset_visitors :: "faults \<Rightarrow> database \<Rightarrow> (response \<times> nat) \<times> database" where
  "reset_visitors F db =
     (case reset_count F db of
        (Inr n, db') \<Rightarrow> ((jsonify [(''count'', JInt n)], 200), db')
      | (Inl exc, db') \<Rightarrow>
          ((jsonify [(''error'', JStr ''Unable to reset visitor count'')], 500), db'))"

definition home :: "string \<Rightarrow> response" where
  \<comment> \<open>the argument is the module constant \<^verbatim>\<open>HOME_TEMPLATE\<close>, a fixed HTML document\<close>
  "home HOME_TEMPLATE =
     (let response = make_response HOME_TEMPLATE
      in response\<lparr>headers :=
           headers_set ''Content-Type'' ''text/html; charset=utf-8'' (headers response)\<rparr>)"

text \<open>
  The three routes registered with \<^verbatim>\<open>@app.route\<close>. A view that returns a pair of a
  response and a status has the status set on the response.
\<close>

datatype request = GET_root | GET_api_visitors | POST_api_reset

definition finalize :: "response \<times> nat \<Rightarrow> response" where
  "finalize rv = (fst rv)\<lparr>status_code := snd rv\<rparr>"

definition dispatch :: "string \<Rightarrow> request \<Rightarrow> faults \<Rightarrow> database \<Rightarrow> response \<times> database" where
  "dispatch HOME_TEMPLATE req F db =
     (case req of
        GET_root \<Rightarrow> (home HOME_TEMPLATE, db)
      | GET_api_visitors \<Rightarrow> (case get_visitors F db of (rv, db') \<Rightarrow> (finalize rv, db'))
      | POST_api_reset \<Rightarrow> (case reset_visitors F db of (rv, db') \<Rightarrow> (finalize rv, db')))"

section \<open>Observations on the store\<close>

definition stored_count :: "database \<Rightarrow> int option" where
  \<comment> \<open>the count of the row with \<open>id = 1\<close>, when the table and the row exist\<close>
  "stored_count db = (case db of None \<Rightarrow> None | Some t \<Rightarrow> sql_select_count t)"

definition store_invariant :: "database \<Rightarrow> bool" where
  \<comment> \<open>exactly one row, its id is 1, its count is not negative\<close>
  "store_invariant db =
     (case db of
        None \<Rightarrow> False
      | Some t \<Rightarrow> (case t of [r] \<Rightarrow> fst r = 1 \<and> 0 \<le> snd r | _ \<Rightarrow> False))"

datatype operation = Increment | Reset

definition perform :: "database \<Rightarrow> operation \<times> faults \<Rightarrow> database" where
  \<comment> \<open>the database left behind by one store call, whether it returned or raised\<close>
  "perform db step =
     (case fst step of
        Increment \<Rightarrow> snd (increment_and_get_count (snd step) db)
      | Reset \<Rightarrow> snd (reset_count (snd step) db))"

section \<open>Concurrent requests\<close>

text \<open>
  Several workers serve \<^verbatim>\<open>GET /api/visitors\<close> at once, each on its own connection to
  the same database file. SQLite admits one writer at a time and shows other connections
  committed data only, so the write transaction of a worker (its UPDATE up to its
  \<^verbatim>\<open>commit()\<close>) takes effect at one instant. The SELECT that follows runs after the
  commit, outside that transaction, and is a second instant. A schedule lists which
  worker moves next.
\<close>

datatype progress = Not_started | Committed | Returned "exception + int"

record world =
  shared :: database
  workers :: "progress list"

definition worker_step :: "world \<Rightarrow> nat \<Rightarrow> world" where
  "worker_step w i =
     (if i < length (workers w) then
        (case workers w ! i of
           Not_started \<Rightarrow>
             (case update_and_commit {} \<lparr>durable = shared w, pending = None\<rparr> of
                (Inl e, c) \<Rightarrow>
                  \<lparr>shared = durable (rollback c), workers = (workers w)[i := Returned (Inl e)]\<rparr>
              | (Inr _, c) \<Rightarrow>
                  \<lparr>shared = durable c, workers = (workers w)[i := Committed]\<rparr>)
         | Committed \<Rightarrow>
             (case select_and_return {} \<lparr>durable = shared w, pending = None\<rparr> of
                (r, c) \<Rightarrow> \<lparr>shared = durable c, workers = (workers w)[i := Returned r]\<rparr>)
         | Returned r \<Rightarrow> w)
      else w)"

definition run_schedule :: "world \<Rightarrow> nat list \<Rightarrow> world" where
  "run_schedule w schedule = foldl worker_step w schedule"

definition started :: "progress list \<Rightarrow> nat" where
  \<comment> \<open>how many workers have committed their UPDATE\<close>
  "started ws = length (filter (\<lambda>p. p \<noteq> Not_started) ws)"

section \<open>How the three store operations unfold\<close>

lemmas store_defs =
  increment_and_get_count_def reset_count_def initialize_database_def
  increment_body_def update_and_commit_def select_and_return_def reset_body_def
  initialize_body_def with_connection_def get_db_connection_def execute_write_def
  execute_select_def execute_create_def commit_def rollback_def snapshot_def

lemma increment_cases:
  "increment_and_get_count F db =
     (if Connect \<in> F \<or> Update_increment \<in> F then (Inl OperationalError, db)
      else case db of
        None \<Rightarrow> (Inl OperationalError, db)
      | Some t \<Rightarrow>
         if Commit \<in> F then (Inl OperationalError, db)
         else if Select_count \<in> F then (Inl OperationalError, Some (sql_update_increment t))
         else (case sql_select_count (sql_update_increment t) of
                 None \<Rightarrow> (Inl TypeError, Some (sql_update_increment t))
               | Some n \<Rightarrow> (Inr n, Some (sql_update_increment t))))"
  by (simp add: store_defs split: option.splits)

lemma reset_cases:
  "reset_count F db =
     (if Connect \<in> F \<or> Update_reset \<in> F then (Inl OperationalError, db)
      else case db of
        None \<Rightarrow> (Inl OperationalError, db)
      | Some t \<Rightarrow>
         if Commit \<in> F then (Inl OperationalError, db)
         else (Inr 0, Some (sql_update_reset t)))"
  by (simp add: store_defs split: option.splits)

lemma initialize_cases:
  "initialize_database F db =
     (if Mkdir \<in> F then (Inl OSError, db)
      else if Connect \<in> F \<or> Create_table \<in> F then (Inl OperationalError, db)
      else let t = (case db of None \<Rightarrow> [] | Some t \<Rightarrow> t) in
        if Select_count \<in> F then (Inl OperationalError, Some t)
        else case sql_select_count t of
          Some n \<Rightarrow> (Inr (), Some t)
        | None \<Rightarrow>
           if Insert_seed \<in> F \<or> Commit \<in> F then (Inl OperationalError, Some t)
           else (Inr (), Some (sql_insert_seed t)))"
  by (simp add: store_defs sql_create_table_def Let_def split: option.splits)

subsection \<open>The statements on a table\<close>

lemma select_after_increment:
  "sql_select_count (sql_update_increment t) = map_option (\<lambda>c. c + 1) (sql_select_count t)"
  by (induction t) (auto simp: sql_select_count_def sql_update_increment_def)

lemma select_after_reset:
  "sql_select_count (sql_update_reset t) = map_option (\<lambda>c. 0) (sql_select_count t)"
  by (induction t) (auto simp: sql_select_count_def sql_update_reset_def)

lemma increment_without_row: "sql_select_count t = None \<Longrightarrow> sql_update_increment t = t"
  by (induction t) (auto simp: sql_select_count_def sql_update_increment_def split: if_splits)

lemma reset_without_row: "sql_select_count t = None \<Longrightarrow> sql_update_reset t = t"
  by (induction t) (auto simp: sql_select_count_def sql_update_reset_def split: if_splits)

lemma reset_twice: "sql_update_reset (sql_update_reset t) = sql_update_reset t"
  by (induction t) (auto simp: sql_update_reset_def)

lemma single_row_facts:
  "sql_select_count [(1, c)] = Some c"
  "sql_update_increment [(1, c)] = [(1, c + 1)]"
  "sql_update_reset [(1, c)] = [(1, 0)]"
  "sql_select_count [] = None"
  "sql_insert_seed [] = [(1, 0)]"
  by (simp_all add: sql_select_count_def sql_update_increment_def sql_update_reset_def
      sql_insert_seed_def)

lemma increment_single_row:
  "increment_and_get_count F (Some [(1, c)]) =
     (if Connect \<in> F \<or> Update_increment \<in> F \<or> Commit \<in> F
        then (Inl OperationalError, Some [(1, c)])
      else if Select_count \<in> F then (Inl OperationalError, Some [(1, c + 1)])
      else (Inr (c + 1), Some [(1, c + 1)]))"
  by (simp add: increment_cases single_row_facts)

lemma reset_single_row:
  "reset_count F (Some [(1, c)]) =
     (if Connect \<in> F \<or> Update_reset \<in> F \<or> Commit \<in> F
        then (Inl OperationalError, Some [(1, c)])
      else (Inr 0, Some [(1, 0)]))"
  by (simp add: reset_cases single_row_facts)

lemma initialize_single_row:
  "initialize_database F (Some [(1, c)]) =
     (if Mkdir \<in> F then (Inl OSError, Some [(1, c)])
      else if Connect \<in> F \<or> Create_table \<in> F \<or> Select_count \<in> F
        then (Inl OperationalError, Some [(1, c)])
      else (Inr (), Some [(1, c)]))"
  by (simp add: initialize_cases single_row_facts Let_def)

lemma initialize_fresh:
  "initialize_database {} None = (Inr (), Some [(1, 0)])"
  "initialize_database {} (Some []) = (Inr (), Some [(1, 0)])"
  by (simp_all add: initialize_cases single_row_facts Let_def)

lemma store_invariant_iff: "store_invariant db \<longleftrightarrow> (\<exists>c. db = Some [(1, c)] \<and> 0 \<le> c)"
  by (auto simp: store_invariant_def split: option.splits list.splits)

subsection \<open>The endpoints on top of the store\<close>

lemma dispatch_visitors:
  "dispatch T GET_api_visitors F db =
     (case increment_and_get_count F db of
        (Inr n, db') \<Rightarrow>
          (\<lparr>payload = Json [(''count'', JInt n)], status_code = 200,
            headers = [(''Content-Type'', ''application/json'')]\<rparr>, db')
      | (Inl e, db') \<Rightarrow>
          (\<lparr>payload = Json [(''error'', JStr ''Unable to read visitor count'')],
            status_code = 500,
            headers = [(''Content-Type'', ''application/json'')]\<rparr>, db'))"
  by (simp add: dispatch_def get_visitors_def finalize_def jsonify_def
      split: prod.splits sum.splits)

lemma dispatch_reset:
  "dispatch T POST_api_reset F db =
     (case reset_count F db of
        (Inr n, db') \<Rightarrow>
          (\<lparr>payload = Json [(''count'', JInt n)], status_code = 200,
            headers = [(''Content-Type'', ''application/json'')]\<rparr>, db')
      | (Inl e, db') \<Rightarrow>
          (\<lparr>payload = Json [(''error'', JStr ''Unable to reset visitor count'')],
            status_code = 500,
            headers = [(''Content-Type'', ''application/json'')]\<rparr>, db'))"
  by (simp add: dispatch_def reset_visitors_def finalize_def jsonify_def
      split: prod.splits sum.splits)

lemma reset_returns_zero: "fst (reset_count F db) = Inr n \<Longrightarrow> n = 0"
  by (auto simp: reset_cases split: if_splits option.splits)


section \<open>The end-to-end scenario\<close>

text \<open>
  Claim C2. A store initialised from nothing holds the count 0. From there the requests
  \<^verbatim>\<open>GET /api/visitors\<close>, \<^verbatim>\<open>GET /api/visitors\<close>, \<^verbatim>\<open>POST /api/reset\<close>,
  \<^verbatim>\<open>GET /api/visitors\<close>, served without a storage fault, answer with status 200 and the
  bodies \<^verbatim>\<open>{"count": 1}\<close>, \<^verbatim>\<open>{"count": 2}\<close>, \<^verbatim>\<open>{"count": 0}\<close>, \<^verbatim>\<open>{"count": 1}\<close>.
  And whenever \<^verbatim>\<open>GET /api/visitors\<close> answers 200, the stored count went up by exactly
  one and the body carries the new count.
\<close>

theorem end_to_end_scenario:
  "(let db0 = snd (initialize_database {} None);
        (r1, db1) = dispatch T GET_api_visitors {} db0;
        (r2, db2) = dispatch T GET_api_visitors {} db1;
        (r3, db3) = dispatch T POST_api_reset {} db2;
        (r4, db4) = dispatch T GET_api_visitors {} db3
    in stored_count db0 = Some 0
     \<and> map status_code [r1, r2, r3, r4] = [200, 200, 200, 200]
     \<and> map payload [r1, r2, r3, r4] =
         [Json [(''count'', JInt 1)], Json [(''count'', JInt 2)],
          Json [(''count'', JInt 0)], Json [(''count'', JInt 1)]])
   \<and> (status_code (fst (dispatch T GET_api_visitors F db)) = 200 \<longrightarrow>
        (\<exists>c. stored_count db = Some c
           \<and> stored_count (snd (dispatch T GET_api_visitors F db)) = Some (c + 1)
           \<and> payload (fst (dispatch T GET_api_visitors F db)) = Json [(''count'', JInt (c + 1))]))"
proof (intro conjI impI)
  show "(let db0 = snd (initialize_database {} None);
        (r1, db1) = dispatch T GET_api_visitors {} db0;
        (r2, db2) = dispatch T GET_api_visitors {} db1;
        (r3, db3) = dispatch T POST_api_reset {} db2;
        (r4, db4) = dispatch T GET_api_visitors {} db3
    in stored_count db0 = Some 0
     \<and> map status_code [r1, r2, r3, r4] = [200, 200, 200, 200]
     \<and> map payload [r1, r2, r3, r4] =
         [Json [(''count'', JInt 1)], Json [(''count'', JInt 2)],
          Json [(''count'', JInt 0)], Json [(''count'', JInt 1)]])"
    by (simp add: initialize_fresh dispatch_visitors dispatch_reset increment_single_row
        reset_single_row single_row_facts stored_count_def)
next
  assume ok: "status_code (fst (dispatch T GET_api_visitors F db)) = 200"
  then obtain t n where db: "db = Some t"
    and res: "increment_and_get_count F db = (Inr n, Some (sql_update_increment t))"
    and sel: "sql_select_count (sql_update_increment t) = Some n"
    by (auto simp: dispatch_visitors increment_cases split: if_splits option.splits)
  from sel obtain c where c: "sql_select_count t = Some c" and n: "n = c + 1"
    by (auto simp: select_after_increment)
  show "\<exists>c. stored_count db = Some c
           \<and> stored_count (snd (dispatch T GET_api_visitors F db)) = Some (c + 1)
           \<and> payload (fst (dispatch T GET_api_visitors F db)) = Json [(''count'', JInt (c + 1))]"
    using db res sel c n by (simp add: dispatch_visitors stored_count_def)
qed

theorem end_to_end_scenario_witness:
  "status_code (fst (dispatch [] GET_api_visitors {} (Some [(1, 41)]))) = 200
   \<and> (\<exists>c. stored_count (Some [(1, 41)]) = Some c
        \<and> stored_count (snd (dispatch [] GET_api_visitors {} (Some [(1, 41)]))) = Some (c + 1)
        \<and> payload (fst (dispatch [] GET_api_visitors {} (Some [(1, 41)])))
            = Json [(''count'', JInt (c + 1))])"
proof -
  have ok: "status_code (fst (dispatch [] GET_api_visitors {} (Some [(1, 41)]))) = 200"
    by (simp add: dispatch_visitors increment_single_row)
  from end_to_end_scenario [of "[]" "{}" "Some [(1, 41)]"] ok show ?thesis
    by blast
qed

section \<open>Reset\<close>

text \<open>
  Claim C3. On every store that holds the counter row, whatever its count, a reset that
  meets no storage fault sets the stored count to 0 and returns 0; a second reset
  returns 0 again and leaves the store as the first left it; and the increment that
  follows returns 1.
\<close>

theorem reset_idempotent:
  assumes "stored_count db = Some K"
    and "Connect \<notin> F" and "Update_reset \<notin> F" and "Commit \<notin> F"
    and "Connect \<notin> G" and "Update_increment \<notin> G" and "Commit \<notin> G" and "Select_count \<notin> G"
  shows "(let (r1, db1) = reset_count F db;
              (r2, db2) = reset_count F db1;
              (r3, db3) = increment_and_get_count G db2
          in r1 = Inr 0 \<and> stored_count db1 = Some 0
           \<and> r2 = Inr 0 \<and> db2 = db1
           \<and> r3 = Inr 1 \<and> stored_count db3 = Some 1)"
proof -
  from assms(1) obtain t where db: "db = Some t" and t: "sql_select_count t = Some K"
    by (auto simp: stored_count_def split: option.splits)
  show ?thesis
    using assms(2-) t
    by (simp add: db reset_cases increment_cases stored_count_def select_after_reset
        select_after_increment reset_twice)
qed

theorem reset_idempotent_witness:
  "(let (r1, db1) = reset_count {} (Some [(1, 7)]);
        (r2, db2) = reset_count {} db1;
        (r3, db3) = increment_and_get_count {} db2
    in r1 = Inr 0 \<and> stored_count db1 = Some 0
     \<and> r2 = Inr 0 \<and> db2 = db1
     \<and> r3 = Inr 1 \<and> stored_count db3 = Some 1)
   \<and> stored_count (Some [(1, 7)]) = Some 7"
proof -
  have h: "stored_count (Some [(1, 7)]) = Some 7"
    by (simp add: stored_count_def single_row_facts)
  from reset_idempotent [OF h, of "{}" "{}"] h show ?thesis
    by simp
qed

section \<open>Initialisation\<close>

text \<open>
  Claim C4. On a store that holds the counter row with count \<open>K\<close>, any number of runs of
  the initialisation, whichever of their calls fail, leaves the database as it was: the
  count stays \<open>K\<close> and no row is added. A run without a fault returns normally. The
  increment that follows such a restart returns \<open>K + 1\<close>. On a database without the
  table, the initialisation creates it and seeds the single row \<open>(1, 0)\<close>.
\<close>

theorem initialize_idempotent:
  "foldl (\<lambda>d F. snd (initialize_database F d)) (Some [(1, K)]) Fs = Some [(1, K)]
   \<and> initialize_database {} (Some [(1, K)]) = (Inr (), Some [(1, K)])
   \<and> increment_and_get_count {}
        (foldl (\<lambda>d F. snd (initialize_database F d)) (Some [(1, K)]) Fs)
       = (Inr (K + 1), Some [(1, K + 1)])
   \<and> initialize_database {} None = (Inr (), Some [(1, 0)])"
proof -
  have one: "snd (initialize_database F (Some [(1, K)])) = Some [(1, K)]" for F
    by (simp add: initialize_single_row)
  have many: "foldl (\<lambda>d F. snd (initialize_database F d)) (Some [(1, K)]) Fs = Some [(1, K)]"
    by (induction Fs) (simp_all add: one)
  show ?thesis
    by (simp add: many increment_single_row initialize_single_row initialize_fresh)
qed

section \<open>The state invariant\<close>

text \<open>
  Claim C5. Let the initialisation return normally on a database that has no table, or
  has an empty table, or already satisfies the invariant. Then after every sequence of
  increments and resets, each with any storage faults, exactly one row exists, its id is
  1 and its count is not negative; and the next operation leaves the count as it is
  (when it fails early), or adds 1 (an increment), or sets it to 0 (a reset).
\<close>

theorem invariant_preserved:
  assumes "db0 = None \<or> db0 = Some [] \<or> store_invariant db0"
    and "initialize_database F0 db0 = (Inr (), db1)"
  shows "store_invariant (foldl perform db1 steps)
       \<and> (let db = foldl perform db1 steps; db' = perform db (op, F)
          in stored_count db' = stored_count db
           \<or> op = Increment \<and> stored_count db' = map_option (\<lambda>c. c + 1) (stored_count db)
           \<or> op = Reset \<and> stored_count db' = Some 0)"
proof -
  have step: "store_invariant (perform d s)" if "store_invariant d" for d s
  proof -
    from that obtain c where "d = Some [(1, c)]" "0 \<le> c"
      by (auto simp: store_invariant_iff)
    then show ?thesis
      by (cases "fst s")
         (simp_all add: perform_def increment_single_row reset_single_row store_invariant_iff)
  qed
  have run: "store_invariant (foldl perform d steps)" if "store_invariant d" for d
    using that by (induction steps arbitrary: d) (simp_all add: step)
  from assms have "store_invariant db1"
    by (auto simp: initialize_cases store_invariant_iff single_row_facts Let_def
        split: if_splits)
  then have inv: "store_invariant (foldl perform db1 steps)"
    by (rule run)
  then obtain c where c: "foldl perform db1 steps = Some [(1, c)]"
    by (auto simp: store_invariant_iff)
  have "stored_count (perform (Some [(1, c)]) (op, F)) = stored_count (Some [(1, c)])
      \<or> op = Increment \<and> stored_count (perform (Some [(1, c)]) (op, F))
           = map_option (\<lambda>c. c + 1) (stored_count (Some [(1, c)]))
      \<or> op = Reset \<and> stored_count (perform (Some [(1, c)]) (op, F)) = Some 0"
    by (cases op)
       (simp_all add: perform_def increment_single_row reset_single_row stored_count_def
          single_row_facts)
  with inv c show ?thesis
    by (simp add: Let_def)
qed

theorem invariant_preserved_witness:
  "initialize_database {} None = (Inr (), Some [(1, 0)])
   \<and> store_invariant
       (foldl perform (Some [(1, 0)])
          [(Increment, {}), (Increment, {Commit}), (Increment, {Select_count}), (Reset, {})])"
proof -
  have i: "initialize_database {} None = (Inr (), Some [(1, 0)])"
    by (simp add: initialize_fresh)
  have s: "(None :: database) = None \<or> None = Some [] \<or> store_invariant None"
    by simp
  from invariant_preserved [OF s i] i show ?thesis
    by blast
qed


section \<open>Status codes and bodies\<close>

text \<open>
  Claim C6. \<^verbatim>\<open>GET /api/visitors\<close> answers 200 with \<^verbatim>\<open>{"count": n}\<close> exactly when the
  increment returns \<open>n\<close>, and 500 with \<^verbatim>\<open>{"error": "Unable to read visitor count"}\<close>
  exactly when it raises. \<^verbatim>\<open>POST /api/reset\<close> answers 200 with \<^verbatim>\<open>{"count": 0}\<close> exactly
  when the reset returns, and 500 with \<^verbatim>\<open>{"error": "Unable to reset visitor count"}\<close>
  exactly when it raises. The endpoint is a response in every case: whatever the store
  raises is turned into the 500 response.
\<close>

theorem endpoint_status_mapping:
  "(case increment_and_get_count F db of
      (Inr n, db') \<Rightarrow>
        status_code (fst (dispatch T GET_api_visitors F db)) = 200
        \<and> payload (fst (dispatch T GET_api_visitors F db)) = Json [(''count'', JInt n)]
    | (Inl e, db') \<Rightarrow>
        status_code (fst (dispatch T GET_api_visitors F db)) = 500
        \<and> payload (fst (dispatch T GET_api_visitors F db))
            = Json [(''error'', JStr ''Unable to read visitor count'')])
   \<and> (case reset_count F db of
      (Inr n, db') \<Rightarrow>
        status_code (fst (dispatch T POST_api_reset F db)) = 200
        \<and> payload (fst (dispatch T POST_api_reset F db)) = Json [(''count'', JInt 0)]
    | (Inl e, db') \<Rightarrow>
        status_code (fst (dispatch T POST_api_reset F db)) = 500
        \<and> payload (fst (dispatch T POST_api_reset F db))
            = Json [(''error'', JStr ''Unable to reset visitor count'')])
   \<and> (status_code (fst (dispatch T GET_api_visitors F db)) = 200
        \<longleftrightarrow> (\<exists>n. fst (increment_and_get_count F db) = Inr n))
   \<and> (status_code (fst (dispatch T GET_api_visitors F db)) = 500
        \<longleftrightarrow> (\<exists>e. fst (increment_and_get_count F db) = Inl e))
   \<and> (status_code (fst (dispatch T POST_api_reset F db)) = 200
        \<longleftrightarrow> (\<exists>n. fst (reset_count F db) = Inr n))
   \<and> (status_code (fst (dispatch T POST_api_reset F db)) = 500
        \<longleftrightarrow> (\<exists>e. fst (reset_count F db) = Inl e))"
proof -
  obtain r d where inc: "increment_and_get_count F db = (r, d)"
    by (cases "increment_and_get_count F db")
  obtain r' d' where res: "reset_count F db = (r', d')"
    by (cases "reset_count F db")
  have zero: "n = 0" if "r' = Inr n" for n
    using reset_returns_zero [of F db n] res that by simp
  have visitors:
    "(case (r, d) of
        (Inr n, db') \<Rightarrow>
          status_code (fst (dispatch T GET_api_visitors F db)) = 200
          \<and> payload (fst (dispatch T GET_api_visitors F db)) = Json [(''count'', JInt n)]
      | (Inl e, db') \<Rightarrow>
          status_code (fst (dispatch T GET_api_visitors F db)) = 500
          \<and> payload (fst (dispatch T GET_api_visitors F db))
              = Json [(''error'', JStr ''Unable to read visitor count'')])"
    by (cases r) (simp_all add: dispatch_visitors inc)
  have reset:
    "(case (r', d') of
        (Inr n, db') \<Rightarrow>
          status_code (fst (dispatch T POST_api_reset F db)) = 200
          \<and> payload (fst (dispatch T POST_api_reset F db)) = Json [(''count'', JInt 0)]
      | (Inl e, db') \<Rightarrow>
          status_code (fst (dispatch T POST_api_reset F db)) = 500
          \<and> payload (fst (dispatch T POST_api_reset F db))
              = Json [(''error'', JStr ''Unable to reset visitor count'')])"
    using zero by (cases r') (simp_all add: dispatch_reset res)
  have v200: "status_code (fst (dispatch T GET_api_visitors F db)) = 200
        \<longleftrightarrow> (\<exists>n. fst (increment_and_get_count F db) = Inr n)"
    by (cases r) (simp_all add: dispatch_visitors inc)
  have v500: "status_code (fst (dispatch T GET_api_visitors F db)) = 500
        \<longleftrightarrow> (\<exists>e. fst (increment_and_get_count F db) = Inl e)"
    by (cases r) (simp_all add: dispatch_visitors inc)
  have r200: "status_code (fst (dispatch T POST_api_reset F db)) = 200
        \<longleftrightarrow> (\<exists>n. fst (reset_count F db) = Inr n)"
    by (cases r') (simp_all add: dispatch_reset res)
  have r500: "status_code (fst (dispatch T POST_api_reset F db)) = 500
        \<longleftrightarrow> (\<exists>e. fst (reset_count F db) = Inl e)"
    by (cases r') (simp_all add: dispatch_reset res)
  from visitors reset v200 v500 r200 r500 show ?thesis
    unfolding inc res by blast
qed

section \<open>A table without the counter row\<close>

text \<open>
  Claim C8. When the table exists and holds no row with id 1, the increment raises,
  whichever calls fail; without a storage fault it is the read of the missing row that
  raises (\<open>TypeError\<close>). \<^verbatim>\<open>GET /api/visitors\<close> answers 500, and the table is left as it
  was: the row is not created.
\<close>

theorem increment_on_missing_row:
  assumes "sql_select_count t = None"
  shows "(\<exists>e. increment_and_get_count F (Some t) = (Inl e, Some t))
       \<and> increment_and_get_count {} (Some t) = (Inl TypeError, Some t)
       \<and> status_code (fst (dispatch T GET_api_visitors F (Some t))) = 500
       \<and> snd (dispatch T GET_api_visitors F (Some t)) = Some t"
proof -
  have upd: "sql_update_increment t = t"
    using assms by (rule increment_without_row)
  have raises: "\<exists>e. increment_and_get_count F (Some t) = (Inl e, Some t)"
    by (simp add: increment_cases upd assms)
  moreover have "increment_and_get_count {} (Some t) = (Inl TypeError, Some t)"
    by (simp add: increment_cases upd assms)
  moreover from raises have "status_code (fst (dispatch T GET_api_visitors F (Some t))) = 500"
    and "snd (dispatch T GET_api_visitors F (Some t)) = Some t"
    by (auto simp: dispatch_visitors)
  ultimately show ?thesis by simp
qed

theorem increment_on_missing_row_witness:
  "sql_select_count [] = None
   \<and> increment_and_get_count {} (Some []) = (Inl TypeError, Some [])
   \<and> status_code (fst (dispatch [] GET_api_visitors {} (Some []))) = 500
   \<and> snd (dispatch [] GET_api_visitors {} (Some [])) = Some []"
proof -
  have h: "sql_select_count [] = None"
    by (simp add: single_row_facts)
  from increment_on_missing_row [OF h, of "{}" "[]"] h show ?thesis
    by simp
qed

text \<open>
  Claim C9. In the same state a reset that meets no storage fault returns 0 all the
  same: its UPDATE matches no row, and the value returned is the literal 0.
  \<^verbatim>\<open>POST /api/reset\<close> answers 200 with \<^verbatim>\<open>{"count": 0}\<close>, and the table still has no
  counter row.
\<close>

theorem reset_on_missing_row:
  assumes "sql_select_count t = None"
    and "Connect \<notin> F" and "Update_reset \<notin> F" and "Commit \<notin> F"
  shows "reset_count F (Some t) = (Inr 0, Some t)
       \<and> status_code (fst (dispatch T POST_api_reset F (Some t))) = 200
       \<and> payload (fst (dispatch T POST_api_reset F (Some t))) = Json [(''count'', JInt 0)]
       \<and> snd (dispatch T POST_api_reset F (Some t)) = Some t
       \<and> stored_count (snd (dispatch T POST_api_reset F (Some t))) = None"
proof -
  have upd: "sql_update_reset t = t"
    using assms(1) by (rule reset_without_row)
  have "reset_count F (Some t) = (Inr 0, Some t)"
    using assms(2-) by (simp add: reset_cases upd)
  then show ?thesis
    using assms(1) by (simp add: dispatch_reset stored_count_def)
qed

theorem reset_on_missing_row_witness:
  "sql_select_count [] = None
   \<and> reset_count {} (Some []) = (Inr 0, Some [])
   \<and> status_code (fst (dispatch [] POST_api_reset {} (Some []))) = 200
   \<and> payload (fst (dispatch [] POST_api_reset {} (Some []))) = Json [(''count'', JInt 0)]
   \<and> snd (dispatch [] POST_api_reset {} (Some [])) = Some []"
proof -
  have h: "sql_select_count [] = None"
    by (simp add: single_row_facts)
  from reset_on_missing_row [OF h, of "{}" "[]"] h show ?thesis
    by simp
qed

section \<open>The dashboard\<close>

text \<open>
  Claim C10. \<^verbatim>\<open>GET /\<close> answers with status 200, the template as its body and the one
  header \<^verbatim>\<open>Content-Type: text/html; charset=utf-8\<close>. The answer depends on neither the
  database nor the storage faults, and the database is left as it was.
\<close>

theorem home_is_static:
  "home T = \<lparr>payload = Text T, status_code = 200,
             headers = [(''Content-Type'', ''text/html; charset=utf-8'')]\<rparr>
   \<and> dispatch T GET_root F db = (home T, db)"
  by (simp add: home_def make_response_def dispatch_def)

section \<open>A failure after the commit\<close>

lemma reset_failure_leaves_store:
  "fst (reset_count F db) = Inl e \<Longrightarrow> snd (reset_count F db) = db"
  by (auto simp: reset_cases split: if_splits option.splits)

lemma increment_failure_before_read_leaves_store:
  "Connect \<in> F \<or> Update_increment \<in> F \<or> Commit \<in> F \<Longrightarrow>
     increment_and_get_count F db = (Inl OperationalError, db)"
  by (auto simp: increment_cases split: option.splits)

text \<open>
  Claim C7. A reset that raises leaves the store as it was, and so does an increment
  that raises up to its commit (the two lemmas above). The increment commits before it
  reads the count back, though: when the SELECT raises, the caller sees the error and
  the store holds the incremented count. With the count 5 stored and the SELECT failing,
  the call raises and the store holds 6.
\<close>

theorem increment_read_failure_after_commit:
  "increment_and_get_count {Select_count} (Some [(1, 5)])
     = (Inl OperationalError, Some [(1, 6)])"
  by (simp add: increment_single_row)

section \<open>Two requests at once\<close>

lemma worker_step_cases:
  "worker_step w i =
     (if i < length (workers w) then
        (case workers w ! i of
           Not_started \<Rightarrow>
             (case shared w of
                None \<Rightarrow> w\<lparr>workers := (workers w)[i := Returned (Inl OperationalError)]\<rparr>
              | Some t \<Rightarrow>
                  \<lparr>shared = Some (sql_update_increment t),
                   workers = (workers w)[i := Committed]\<rparr>)
         | Committed \<Rightarrow>
             (case shared w of
                None \<Rightarrow> w\<lparr>workers := (workers w)[i := Returned (Inl OperationalError)]\<rparr>
              | Some t \<Rightarrow>
                 (case sql_select_count t of
                    None \<Rightarrow> w\<lparr>workers := (workers w)[i := Returned (Inl TypeError)]\<rparr>
                  | Some n \<Rightarrow> w\<lparr>workers := (workers w)[i := Returned (Inr n)]\<rparr>))
         | Returned r \<Rightarrow> w)
      else w)"
  by (simp add: worker_step_def update_and_commit_def select_and_return_def execute_write_def
      execute_select_def commit_def rollback_def snapshot_def
      split: progress.splits option.splits)

text \<open>One worker alone does what the sequential function does.\<close>

lemma single_worker_agrees:
  "run_schedule \<lparr>shared = db, workers = [Not_started]\<rparr> [0, 0] =
     \<lparr>shared = snd (increment_and_get_count {} db),
      workers = [Returned (fst (increment_and_get_count {} db))]\<rparr>"
  by (simp add: run_schedule_def worker_step_cases increment_cases split: option.splits)

lemma filter_length_update_new:
  "i < length xs \<Longrightarrow> \<not> P (xs ! i) \<Longrightarrow> P y \<Longrightarrow>
     length (filter P (xs[i := y])) = Suc (length (filter P xs))"
proof (induction xs arbitrary: i)
  case Nil
  then show ?case by simp
next
  case (Cons x xs)
  then show ?case by (cases i) auto
qed

lemma filter_length_update_same:
  "i < length xs \<Longrightarrow> P (xs ! i) \<Longrightarrow> P y \<Longrightarrow>
     length (filter P (xs[i := y])) = length (filter P xs)"
proof (induction xs arbitrary: i)
  case Nil
  then show ?case by simp
next
  case (Cons x xs)
  then show ?case by (cases i) auto
qed

lemma worker_step_counts:
  assumes "shared w = Some [(1, V + int (started (workers w)))]"
  shows "shared (worker_step w i) = Some [(1, V + int (started (workers (worker_step w i))))]"
proof (cases "i < length (workers w)")
  case False
  then show ?thesis using assms by (simp add: worker_step_cases)
next
  case True
  show ?thesis
  proof (cases "workers w ! i")
    case Not_started
    with True assms show ?thesis
      by (simp add: worker_step_cases single_row_facts started_def filter_length_update_new
          add.assoc)
  next
    case Committed
    with True assms show ?thesis
      by (simp add: worker_step_cases single_row_facts started_def filter_length_update_same)
  next
    case (Returned r)
    with True assms show ?thesis
      by (simp add: worker_step_cases)
  qed
qed

text \<open>
  No update is lost: under every schedule the stored count is the starting count plus
  the number of workers that have committed.
\<close>

lemma no_lost_update:
  "shared (run_schedule \<lparr>shared = Some [(1, V)], workers = replicate N Not_started\<rparr> schedule)
     = Some [(1, V + int (started (workers
         (run_schedule \<lparr>shared = Some [(1, V)], workers = replicate N Not_started\<rparr>
            schedule))))]"
proof -
  have run: "shared (foldl worker_step w schedule) =
      Some [(1, V + int (started (workers (foldl worker_step w schedule))))]"
    if "shared w = Some [(1, V + int (started (workers w)))]" for w
    using that by (induction schedule arbitrary: w) (simp_all add: worker_step_counts)
  show ?thesis
    unfolding run_schedule_def by (rule run) (simp add: started_def)
qed

text \<open>
  Claim C1. Two requests arrive at a counter that holds 0. Both commit their UPDATE
  before either reads the count back. The stored count ends at 2, and both requests
  return 2: the value 1 is returned to nobody and the value 2 twice.
\<close>

theorem concurrent_requests_same_value:
  "run_schedule \<lparr>shared = Some [(1, 0)], workers = [Not_started, Not_started]\<rparr> [0, 1, 0, 1]
     = \<lparr>shared = Some [(1, 2)], workers = [Returned (Inr 2), Returned (Inr 2)]\<rparr>"
  by (simp add: run_schedule_def worker_step_cases single_row_facts)

end
